theory Spec2Isabelle
  imports
    Complex_Main
    "HOL-Library.Multiset"
    "HOL-Library.Char_ord"
    "HOL-Library.List_Lexorder"
    "HOL-Library.Sublist"
begin

section \<open>Data model (types.ts)\<close>

text \<open>
  Modelled from the spec: the declarations of \<^verbatim>\<open>types.ts\<close> (QuestionType, UploadedFile,
  QuizConfig, Question, UserAnswer, GradedQuestion, QuizResult) are not among the sources.
  The members of \<^verbatim>\<open>QuestionType\<close> are the six named in \<^verbatim>\<open>UploadScreen.tsx\<close>; the fields of
  the interfaces are the ones the source files read and write, with the optional fields of
  the response schema of \<^verbatim>\<open>geminiService.ts\<close> as \<open>option\<close>. The source's \<^verbatim>\<open>id\<close>, \<^verbatim>\<open>type\<close>
  and \<^verbatim>\<open>text\<close> are \<open>qid\<close>, \<open>qtype\<close> and \<open>qtext\<close> here.
\<close>

datatype QuestionType =
  MULTIPLE_CHOICE | TRUE_FALSE | FILL_IN_BLANK | SHORT_ANSWER | MATCHING | SEQUENCING

datatype Difficulty = Easy | Medium | Hard

record UploadedFile =
  file_id :: string
  name :: string
  mimeType :: string
  base64 :: string

record QuizConfig =
  documents :: "UploadedFile list"
  numQuestions :: int
  selectedTypes :: "QuestionType list"
  autoDetect :: bool
  difficulty :: Difficulty
  customInstructions :: string
  timeLimit :: int

record MatchingPair =
  left :: string
  right :: string

record Question =
  qid :: int
  qtype :: QuestionType
  qtext :: string
  options :: "string list option"
  correctAnswer :: "string option"
  matchingPairs :: "MatchingPair list option"
  sequencingItems :: "string list option"

record UserAnswer =
  questionId :: int
  answer :: string

section \<open>UploadScreen.tsx: validation of the configuration\<close>

text \<open>
  The component's state is the seven values that make up the configuration plus three that
  only the screen uses. \<^verbatim>\<open>String.prototype.trim\<close> removes white space and line terminators
  from both ends; of these the code units below 256 are listed.
\<close>

record UploadScreen = QuizConfig +
  dragActive :: bool
  error :: string
  isProcessing :: bool

definition js_whitespace :: "char \<Rightarrow> bool" where
  "js_whitespace c = (of_char c \<in> {9, 10, 11, 12, 13, 32, 160 :: nat})"

definition trim :: "string \<Rightarrow> string" where
  "trim s = rev (dropWhile js_whitespace (rev (dropWhile js_whitespace s)))"

text \<open>
  \<^verbatim>\<open>handleSubmit\<close> returns the state after the call and the argument of \<^verbatim>\<open>onStartQuiz\<close>,
  \<open>None\<close> when the continuation is not called.
\<close>

definition handleSubmit :: "UploadScreen \<Rightarrow> UploadScreen \<times> QuizConfig option" where
  "handleSubmit s =
     (if length (documents s) = 0 then
        (s\<lparr>error := ''Please upload at least one lesson file.''\<rparr>, None)
      else if \<not> autoDetect s \<and> length (selectedTypes s) = 0 then
        (s\<lparr>error := ''Please select at least one question type or enable Auto-detect.''\<rparr>, None)
      else
        (s, Some \<lparr>documents = documents s,
                  numQuestions = numQuestions s,
                  selectedTypes = selectedTypes s,
                  autoDetect = autoDetect s,
                  difficulty = difficulty s,
                  customInstructions = trim (customInstructions s),
                  timeLimit = timeLimit s\<rparr>))"

section \<open>QuizScreen.tsx: the choices of a matching question\<close>

text \<open>
  The MATCHING case of \<^verbatim>\<open>renderInput\<close>: one row per pair, each with a select element whose
  value is the current selection for the pair's left item and whose choices, after the
  placeholder, are \<^verbatim>\<open>rightOptions\<close>. \<^verbatim>\<open>Array.prototype.sort\<close> without a comparator orders
  strings by their code units, which is the lexicographic order of \<open>string\<close>.
  A selection map is a JavaScript object, kept as the list of its properties.
\<close>

definition rightOptions :: "Question \<Rightarrow> string list" where
  "rightOptions q = (case matchingPairs q of None \<Rightarrow> [] | Some ps \<Rightarrow> sort (map right ps))"

record MatchRow =
  row_left :: string
  row_value :: string
  row_choices :: "string list"

definition renderInput_matching :: "Question \<Rightarrow> (string \<times> string) list \<Rightarrow> MatchRow list" where
  "renderInput_matching q matchSelections =
     (case matchingPairs q of
        None \<Rightarrow> []
      | Some ps \<Rightarrow>
          map (\<lambda>pair. \<lparr>row_left = left pair,
                       row_value = (case map_of matchSelections (left pair) of
                                      None \<Rightarrow> '''' | Some v \<Rightarrow> v),
                       row_choices = rightOptions q\<rparr>) ps)"

section \<open>geminiService.ts\<close>

subsection \<open>The random source and shuffleArray\<close>

text \<open>
  \<^verbatim>\<open>Math.random()\<close> is a stream \<open>rnd\<close> of reals, of which the call number \<open>k\<close> returns
  \<open>rnd k\<close>, a value in the interval from 0 (included) to 1 (excluded). A function that
  draws from the stream takes the number of draws made so far and returns the new number
  with its result. The product and \<^verbatim>\<open>Math.floor\<close> are those of the reals.
\<close>

definition unit_source :: "(nat \<Rightarrow> real) \<Rightarrow> bool" where
  "unit_source rnd = (\<forall>k. 0 \<le> rnd k \<and> rnd k < 1)"

text \<open>
  The destructuring assignment \<^verbatim>\<open>[a[i], a[j]] = [a[j], a[i]]\<close> reads both elements and then
  writes both.
\<close>

definition swap :: "nat \<Rightarrow> nat \<Rightarrow> 'a list \<Rightarrow> 'a list" where
  "swap i j arr = arr[i := arr ! j, j := arr ! i]"

fun shuffle_loop :: "(nat \<Rightarrow> real) \<Rightarrow> nat \<Rightarrow> nat \<Rightarrow> 'a list \<Rightarrow> 'a list \<times> nat" where
  "shuffle_loop rnd k i newArr =
     (if i > 0 then
        let j = nat \<lfloor>rnd k * (real i + 1)\<rfloor>
        in shuffle_loop rnd (k + 1) (i - 1) (swap i j newArr)
      else (newArr, k))"

definition shuffleArray :: "(nat \<Rightarrow> real) \<Rightarrow> nat \<Rightarrow> 'a list \<Rightarrow> 'a list \<times> nat" where
  "shuffleArray rnd k array = shuffle_loop rnd k (length array - 1) array"

subsection \<open>Errors and remote calls\<close>

text \<open>
  The errors the service functions throw: the three \<^verbatim>\<open>new Error(...)\<close> of the source, the
  \<^verbatim>\<open>TypeError\<close> of a property read on \<^verbatim>\<open>undefined\<close>, the \<^verbatim>\<open>SyntaxError\<close> of \<^verbatim>\<open>JSON.parse\<close>, and
  the rejection of the remote call. A remote call that answers is followed by
  \<^verbatim>\<open>JSON.parse\<close>, which throws or returns the parsed data.
\<close>

datatype error =
    ApiKeyMissing
  | InvalidResponseStructure
  | QuestionIdMismatch int
  | TypeError
  | SyntaxError
  | RemoteError string

datatype 'd response = Rejected string | Unparsable | Parsed 'd

subsection \<open>generateQuiz: processing of the response\<close>

text \<open>
  The parsed data of a generation response is given by the value of its property
  \<^verbatim>\<open>questions\<close>: \<open>None\<close> when the property is absent, the array otherwise.
  \<^verbatim>\<open>q.options && Array.isArray(q.options)\<close> holds when the optional array is there, the
  empty one included.
\<close>

definition process_question :: "(nat \<Rightarrow> real) \<Rightarrow> nat \<Rightarrow> Question \<Rightarrow> Question \<times> nat" where
  "process_question rnd k q =
     (case options q of
        Some opts \<Rightarrow>
          if qtype q = MULTIPLE_CHOICE
          then (let (shuffled, k') = shuffleArray rnd k opts in (q\<lparr>options := Some shuffled\<rparr>, k'))
          else (q, k)
      | None \<Rightarrow> (q, k))"

fun process_questions :: "(nat \<Rightarrow> real) \<Rightarrow> nat \<Rightarrow> Question list \<Rightarrow> Question list \<times> nat" where
  "process_questions rnd k [] = ([], k)"
| "process_questions rnd k (q # qs) =
     (let (q', k') = process_question rnd k q;
          (qs', k'') = process_questions rnd k' qs
      in (q' # qs', k''))"

definition generateQuiz ::
  "bool \<Rightarrow> (nat \<Rightarrow> real) \<Rightarrow> nat \<Rightarrow> Question list option response \<Rightarrow> error + Question list" where
  "generateQuiz api_key rnd k resp =
     (if \<not> api_key then Inl ApiKeyMissing
      else case resp of
        Rejected msg \<Rightarrow> Inl (RemoteError msg)
      | Unparsable \<Rightarrow> Inl SyntaxError
      | Parsed data_questions \<Rightarrow>
          (case data_questions of
             None \<Rightarrow> Inl InvalidResponseStructure
           | Some qs \<Rightarrow> Inr (fst (process_questions rnd k qs))))"

subsection \<open>gradeQuiz: merging the grades with the questions\<close>

text \<open>
  A record of the grading response has the five properties that the grading schema
  requires; the data has \<^verbatim>\<open>gradedQuestions\<close> and \<^verbatim>\<open>overallFeedback\<close>, either of which may be
  absent. Scores are reals.
\<close>

record Grade =
  gq_id :: int
  gq_isCorrect :: bool
  gq_score :: real
  gq_explanation :: string
  gq_aiCorrection :: string

record GradingData =
  data_gradedQuestions :: "Grade list option"
  data_overallFeedback :: "string option"

record GradedQuestion = Question +
  userAnswer :: string
  isCorrect :: bool
  score :: real
  explanation :: string
  aiCorrection :: string

record QuizResult =
  totalScore :: real
  maxScore :: nat
  gradedQuestions :: "GradedQuestion list"
  overallFeedback :: string

definition merge_grade :: "Question list \<Rightarrow> UserAnswer list \<Rightarrow> Grade \<Rightarrow> error + GradedQuestion" where
  "merge_grade originalQuestions userAnswers gq =
     (let original = find (\<lambda>q. qid q = gq_id gq) originalQuestions;
          userAnswer = (case find (\<lambda>a. questionId a = gq_id gq) userAnswers of
                          None \<Rightarrow> '''' | Some a \<Rightarrow> answer a)
      in case original of
           None \<Rightarrow> Inl (QuestionIdMismatch (gq_id gq))
         | Some orig \<Rightarrow>
             Inr \<lparr>qid = qid orig, qtype = qtype orig, qtext = qtext orig,
                  options = options orig, correctAnswer = correctAnswer orig,
                  matchingPairs = matchingPairs orig, sequencingItems = sequencingItems orig,
                  userAnswer = userAnswer,
                  isCorrect = gq_isCorrect gq,
                  score = gq_score gq,
                  explanation = gq_explanation gq,
                  aiCorrection = gq_aiCorrection gq\<rparr>)"

text \<open>\<^verbatim>\<open>Array.prototype.map\<close> with a callback that throws stops at the first throw.\<close>

fun merge_grades :: "Question list \<Rightarrow> UserAnswer list \<Rightarrow> Grade list \<Rightarrow> error + GradedQuestion list" where
  "merge_grades originalQuestions userAnswers [] = Inr []"
| "merge_grades originalQuestions userAnswers (gq # gqs) =
     (case merge_grade originalQuestions userAnswers gq of
        Inl e \<Rightarrow> Inl e
      | Inr g \<Rightarrow>
          (case merge_grades originalQuestions userAnswers gqs of
             Inl e \<Rightarrow> Inl e
           | Inr gs \<Rightarrow> Inr (g # gs)))"

definition aggregate :: "Question list \<Rightarrow> UserAnswer list \<Rightarrow> GradingData \<Rightarrow> error + QuizResult" where
  "aggregate originalQuestions userAnswers data =
     (case data_gradedQuestions data of
        None \<Rightarrow> Inl TypeError
      | Some gqs \<Rightarrow>
          (case merge_grades originalQuestions userAnswers gqs of
             Inl e \<Rightarrow> Inl e
           | Inr mergedGradedQuestions \<Rightarrow>
               Inr \<lparr>totalScore = foldl (\<lambda>acc curr. acc + score curr) 0 mergedGradedQuestions,
                    maxScore = length originalQuestions,
                    gradedQuestions = mergedGradedQuestions,
                    overallFeedback = (case data_overallFeedback data of
                                         None \<Rightarrow> ''Quiz completed.''
                                       | Some f \<Rightarrow> if f = [] then ''Quiz completed.'' else f)\<rparr>))"

definition gradeQuiz ::
  "bool \<Rightarrow> GradingData response \<Rightarrow> Question list \<Rightarrow> UserAnswer list \<Rightarrow> error + QuizResult" where
  "gradeQuiz api_key resp originalQuestions userAnswers =
     (if \<not> api_key then Inl ApiKeyMissing
      else case resp of
        Rejected msg \<Rightarrow> Inl (RemoteError msg)
      | Unparsable \<Rightarrow> Inl SyntaxError
      | Parsed data \<Rightarrow> aggregate originalQuestions userAnswers data)"

subsection \<open>explainQuestion\<close>

text \<open>
  The remote call is a function from the prompt to its outcome: a rejection, or the
  response, whose \<^verbatim>\<open>text\<close> may be undefined. Nothing in \<^verbatim>\<open>explainQuestion\<close> catches.
  The parameters \<^verbatim>\<open>userAnswer\<close> and \<^verbatim>\<open>correctAnswer\<close> are \<open>studentAnswer\<close> and \<open>idealAnswer\<close>.
\<close>

definition explain_prompt :: "string \<Rightarrow> string \<Rightarrow> string \<Rightarrow> string \<Rightarrow> string" where
  "explain_prompt questionText studentAnswer idealAnswer query =
     ''Context: Question: \"'' @ questionText @ ''\" Student Answer: \"'' @ studentAnswer @
     ''\" Correct Answer: \"'' @ idealAnswer @ ''\" The student asks: \"'' @ query @
     ''\" Provide a clear, helpful explanation. Be concise but thorough.''"

definition explainQuestion ::
  "bool \<Rightarrow> (string \<Rightarrow> error + string option) \<Rightarrow> string \<Rightarrow> string \<Rightarrow> string \<Rightarrow> string \<Rightarrow> error + string" where
  "explainQuestion api_key generateContent questionText studentAnswer idealAnswer query =
     (if \<not> api_key then Inl ApiKeyMissing
      else case generateContent (explain_prompt questionText studentAnswer idealAnswer query) of
        Inl e \<Rightarrow> Inl e
      | Inr response_text \<Rightarrow>
          Inr (case response_text of
                 None \<Rightarrow> ''I couldn't generate an explanation at this time.''
               | Some t \<Rightarrow> if t = [] then ''I couldn't generate an explanation at this time.'' else t))"

section \<open>ResultScreen.tsx: handleAskAI\<close>

text \<open>
  The handler's \<^verbatim>\<open>try\<close> encloses the call of \<^verbatim>\<open>explainQuestion\<close>, its \<^verbatim>\<open>catch\<close> takes every
  error and its \<^verbatim>\<open>finally\<close> follows both. The result is the error that leaves the handler or
  the state when it is done.
\<close>

record ResultScreen =
  activeQuestionId :: "int option"
  chatInput :: string
  chatResponse :: "string option"
  isChatLoading :: bool

definition handleAskAI ::
  "bool \<Rightarrow> (string \<Rightarrow> error + string option) \<Rightarrow> ResultScreen \<Rightarrow> GradedQuestion \<Rightarrow> error + ResultScreen" where
  "handleAskAI api_key generateContent s q =
     (if trim (chatInput s) = [] then Inr s
      else
        let s1 = s\<lparr>isChatLoading := True, chatResponse := None\<rparr>;
            s2 = (case explainQuestion api_key generateContent
                         (qtext q) (userAnswer q) (aiCorrection q) (chatInput s) of
                    Inr resp \<Rightarrow> s1\<lparr>chatResponse := Some resp\<rparr>
                  | Inl e \<Rightarrow> s1\<lparr>chatResponse := Some ''Sorry, I couldn't connect to the AI tutor right now.''\<rparr>)
        in Inr (s2\<lparr>isChatLoading := False\<rparr>))"

section \<open>QuizScreen.tsx\<close>

subsection \<open>Strings and objects of the platform\<close>

text \<open>
  \<^verbatim>\<open>Array.prototype.join\<close> on an array of strings, and \<^verbatim>\<open>String.prototype.split\<close> with a string
  separator and no limit: the string is cut at each occurrence of the separator, found from
  left to right, the search resuming after the occurrence; the empty separator cuts between
  all code units.
\<close>

fun join :: "string \<Rightarrow> string list \<Rightarrow> string" where
  "join sep [] = []"
| "join sep [x] = x"
| "join sep (x # y # ys) = x @ sep @ join sep (y # ys)"

function split_from :: "string \<Rightarrow> string \<Rightarrow> string \<Rightarrow> string list" where
  "split_from sep cur [] = [cur]"
| "split_from sep cur (c # cs) =
     (if sep \<noteq> [] \<and> prefix sep (c # cs)
      then cur # split_from sep [] (drop (length sep) (c # cs))
      else split_from sep (cur @ [c]) cs)"
  by pat_completeness auto
termination
  by (relation "measure (\<lambda>(sep, cur, s). length s)") auto

definition split :: "string \<Rightarrow> string \<Rightarrow> string list" where
  "split sep s = (if sep = [] then map (\<lambda>c. [c]) s else split_from sep [] s)"

text \<open>
  An object is the list of its properties in the order of their creation; an assignment
  to an existing key keeps the key's place. \<^verbatim>\<open>Object.entries\<close> lists the keys that are array
  indices (the canonical numerals below \<open>2\<^sup>3\<^sup>2 - 1\<close>) in ascending order first, then the
  other keys in the order of their creation. A spread followed by one property,
  \<^verbatim>\<open>{...obj, [k]: v}\<close>, has the entries of \<open>set_property k v obj\<close>.

  The keys of \<^verbatim>\<open>answers\<close> are question identities. The property key of an integer is its
  decimal numeral, which \<^verbatim>\<open>parseInt\<close> reads back (for magnitudes below \<open>10\<^sup>2\<^sup>1\<close>), so the
  model keeps the integer as the key.
\<close>

fun set_property :: "'k \<Rightarrow> 'v \<Rightarrow> ('k \<times> 'v) list \<Rightarrow> ('k \<times> 'v) list" where
  "set_property k v [] = [(k, v)]"
| "set_property k v (p # ps) = (if fst p = k then (k, v) # ps else p # set_property k v ps)"

definition index_of_number :: "int \<Rightarrow> nat option" where
  "index_of_number k = (if 0 \<le> k \<and> k < 4294967295 then Some (nat k) else None)"

definition is_digit :: "char \<Rightarrow> bool" where
  "is_digit c = (48 \<le> (of_char c :: nat) \<and> (of_char c :: nat) \<le> 57)"

definition decimal :: "string \<Rightarrow> nat" where
  "decimal s = foldl (\<lambda>n c. 10 * n + (of_char c - 48)) 0 s"

definition index_of_string :: "string \<Rightarrow> nat option" where
  "index_of_string s =
     (if s \<noteq> [] \<and> list_all is_digit s \<and> (length s = 1 \<or> hd s \<noteq> CHR ''0'')
         \<and> decimal s < 4294967295
      then Some (decimal s) else None)"

definition object_entries :: "('k \<Rightarrow> nat option) \<Rightarrow> ('k \<times> 'v) list \<Rightarrow> ('k \<times> 'v) list" where
  "object_entries idx obj =
     sort_key (\<lambda>p. the (idx (fst p))) (filter (\<lambda>p. idx (fst p) \<noteq> None) obj)
     @ filter (\<lambda>p. idx (fst p) = None) obj"



subsection \<open>Properties and state of the component\<close>

text \<open>
  The state is the five \<^verbatim>\<open>useState\<close> values and, of the environment, whether the interval
  of the timer effect is set, the arguments of the calls of \<^verbatim>\<open>onSubmit\<close> so far (oldest
  first) and the number of draws made from the random source.
\<close>

record QuizScreenProps =
  questions :: "Question list"
  timeLimit :: int

record QuizScreen =
  answers :: "(int \<times> string) list"
  currentIdx :: nat
  timeLeft :: int
  sequenceItems :: "string list"
  matchSelections :: "(string \<times> string) list"
  interval :: bool
  submitted :: "UserAnswer list list"
  draws :: nat



subsection \<open>Answers and their encoding\<close>

definition encode_sequence :: "string list \<Rightarrow> string" where
  "encode_sequence items = join '' || '' items"

definition encode_matches :: "(string \<times> string) list \<Rightarrow> string" where
  "encode_matches ms =
     join '', '' (map (\<lambda>(l, r). l @ '' -> '' @ r) (object_entries index_of_string ms))"



definition push_missing :: "UserAnswer list \<Rightarrow> Question \<Rightarrow> UserAnswer list" where
  "push_missing formattedAnswers q =
     (if find (\<lambda>a. questionId a = qid q) formattedAnswers = None
      then formattedAnswers @ [\<lparr>questionId = qid q, answer = ''''\<rparr>]
      else formattedAnswers)"

definition getFormattedAnswers :: "QuizScreenProps \<Rightarrow> Question \<Rightarrow> QuizScreen \<Rightarrow> UserAnswer list" where
  "getFormattedAnswers ps q st =
     (let currentAns0 = (case map_of (answers st) (qid q) of None \<Rightarrow> '''' | Some v \<Rightarrow> v);
          currentAns =
            (if qtype q = SEQUENCING then encode_sequence (sequenceItems st)
             else if qtype q = MATCHING then encode_matches (matchSelections st)
             else currentAns0);
          finalAnswersMap = set_property (qid q) currentAns (answers st);
          formattedAnswers =
            map (\<lambda>(k, v). \<lparr>questionId = k, answer = v\<rparr>)
                (object_entries index_of_number finalAnswersMap)
      in foldl push_missing formattedAnswers (questions ps))"

subsection \<open>Handlers\<close>



datatype Direction = Up | Down




subsection \<open>Effects\<close>




subsection \<open>Events\<close>

text \<open>
  The events are the calls the rendered controls can make, and the firing of the interval.
  A control that the current question does not render makes no call: the option buttons
  and the text area call \<^verbatim>\<open>handleAnswer\<close>, the arrows of the item at an index of the working
  list call \<^verbatim>\<open>moveItem\<close>, the select of a pair calls \<^verbatim>\<open>handleMatchSelect\<close> with the pair's left
  item and one of its choices; the button \<^verbatim>\<open>Previous\<close> is disabled on the first question;
  a cleared interval does not fire.
\<close>

datatype Event =
    Answer string
  | Next
  | Previous
  | MoveItem nat Direction
  | MatchSelect string string
  | Tick







section \<open>Stated properties and sample inputs\<close>

text \<open>
  What it is for a graded question \<open>g\<close> to be the merge of the grading record \<open>gq\<close> with the
  original questions and the user's answers: it carries the record's identity, its question
  part is the first original question of that identity, its answer is the first answer given
  under that identity (the empty string when there is none), and the grading fields are the
  record's.
\<close>

definition merged :: "Question list \<Rightarrow> UserAnswer list \<Rightarrow> Grade \<Rightarrow> GradedQuestion \<Rightarrow> bool" where
  "merged oq ua gq g =
     (qid g = gq_id gq
      \<and> find (\<lambda>q. qid q = gq_id gq) oq = Some (Question.truncate g)
      \<and> userAnswer g = (case find (\<lambda>a. questionId a = gq_id gq) ua of None \<Rightarrow> [] | Some a \<Rightarrow> answer a)
      \<and> isCorrect g = gq_isCorrect gq \<and> score g = gq_score gq
      \<and> explanation g = gq_explanation gq \<and> aiCorrection g = gq_aiCorrection gq)"

text \<open>
  The lists that \<^verbatim>\<open>split\<close> can return for a separator: there is at least one piece, the last
  piece does not contain the separator, and in every other piece followed by the separator
  the separator occurs at the end only.
\<close>

fun clean_pieces :: "string \<Rightarrow> string list \<Rightarrow> bool" where
  "clean_pieces sep [] = False"
| "clean_pieces sep [p] = (\<not> sublist sep p)"
| "clean_pieces sep (p # q # qs) = (\<not> sublist sep (butlast (p @ sep)) \<and> clean_pieces sep (q # qs))"












definition lesson_pdf :: UploadedFile where
  "lesson_pdf = \<lparr>file_id = ''k3x9'', name = ''lesson.pdf'', mimeType = ''application/pdf'',
     base64 = ''JVBERi0=''\<rparr>"

definition upload_empty :: UploadScreen where
  "upload_empty = \<lparr>documents = [], numQuestions = 5, selectedTypes = [], autoDetect = True,
     difficulty = Medium, customInstructions = '' vocabulary in context '', timeLimit = 0,
     dragActive = False, error = [], isProcessing = False\<rparr>"

definition capital_mc :: Question where
  "capital_mc = \<lparr>qid = 1, qtype = MULTIPLE_CHOICE, qtext = ''What is the capital of France?'',
     options = Some [''Paris'', ''Lyon'', ''Nice'', ''Lille''], correctAnswer = Some ''Paris'',
     matchingPairs = None, sequencingItems = None\<rparr>"

definition water_tf :: Question where
  "water_tf = \<lparr>qid = 2, qtype = TRUE_FALSE,
     qtext = ''Water boils at 100 degrees Celsius at sea level.'',
     options = None, correctAnswer = Some ''True'',
     matchingPairs = None, sequencingItems = None\<rparr>"

definition capitals :: Question where
  "capitals = \<lparr>qid = 4, qtype = MATCHING, qtext = ''Match each capital with its continent.'',
     options = None, correctAnswer = None,
     matchingPairs = Some [\<lparr>left = ''Paris'', right = ''Europe''\<rparr>,
                           \<lparr>left = ''Cairo'', right = ''Africa''\<rparr>,
                           \<lparr>left = ''Berlin'', right = ''Europe''\<rparr>],
     sequencingItems = None\<rparr>"

definition grade_of :: "int \<Rightarrow> real \<Rightarrow> Grade" where
  "grade_of i s = \<lparr>gq_id = i, gq_isCorrect = (s = 1), gq_score = s,
     gq_explanation = ''See the lesson.'', gq_aiCorrection = ''Paris''\<rparr>"

definition two_answers :: "UserAnswer list" where
  "two_answers = [\<lparr>questionId = 1, answer = ''Paris''\<rparr>, \<lparr>questionId = 2, answer = ''''\<rparr>]"

definition asking :: ResultScreen where
  "asking = \<lparr>activeQuestionId = Some 1, chatInput = ''Why is Lyon wrong?'',
     chatResponse = None, isChatLoading = False\<rparr>"

definition graded_mc :: GradedQuestion where
  "graded_mc = \<lparr>qid = 1, qtype = MULTIPLE_CHOICE, qtext = ''What is the capital of France?'',
     options = Some [''Paris'', ''Lyon'', ''Nice'', ''Lille''], correctAnswer = Some ''Paris'',
     matchingPairs = None, sequencingItems = None,
     userAnswer = ''Lyon'', isCorrect = False, score = 0,
     explanation = ''Paris is the capital.'', aiCorrection = ''Paris''\<rparr>"











section \<open>Validation of the configuration\<close>

text \<open>
  Claim C5. A configuration whose document set is empty, or in which auto-detect is off and
  no question type is selected, is rejected with an error message and the continuation
  \<^verbatim>\<open>onStartQuiz\<close> is not called; a configuration with at least one document and either
  auto-detect on or a selected type is passed to the continuation, field by field, with the
  custom instructions trimmed, and the state is left as it was.
\<close>

theorem handleSubmit_validation:
  "(documents s = [] \<or> (\<not> autoDetect s \<and> selectedTypes s = [])
      \<longrightarrow> snd (handleSubmit s) = None \<and> error (fst (handleSubmit s)) \<noteq> [])
   \<and> (documents s \<noteq> [] \<and> (autoDetect s \<or> selectedTypes s \<noteq> [])
      \<longrightarrow> fst (handleSubmit s) = s
          \<and> (\<exists>cfg. snd (handleSubmit s) = Some cfg \<and> documents cfg = documents s
                \<and> selectedTypes cfg = selectedTypes s \<and> autoDetect cfg = autoDetect s
                \<and> numQuestions cfg = numQuestions s \<and> difficulty cfg = difficulty s
                \<and> customInstructions cfg = trim (customInstructions s)
                \<and> QuizConfig.timeLimit cfg = QuizConfig.timeLimit s))"
  by (simp add: handleSubmit_def)

theorem handleSubmit_validation_witness:
  "snd (handleSubmit upload_empty) = None
   \<and> snd (handleSubmit (upload_empty\<lparr>autoDetect := False, documents := [lesson_pdf]\<rparr>)) = None
   \<and> snd (handleSubmit (upload_empty\<lparr>documents := [lesson_pdf]\<rparr>)) \<noteq> None"
  using handleSubmit_validation [of upload_empty]
    handleSubmit_validation [of "upload_empty\<lparr>autoDetect := False, documents := [lesson_pdf]\<rparr>"]
    handleSubmit_validation [of "upload_empty\<lparr>documents := [lesson_pdf]\<rparr>"]
  by (auto simp add: upload_empty_def)

section \<open>The choices of a matching question\<close>

text \<open>
  Claim C8, as the specification states it, asks for a duplicate-free list of choices. Two
  pairs with the same right item give that item twice, in every row.
\<close>

theorem matching_choices_counterexample:
  "map row_choices (renderInput_matching capitals []) =
     [[''Africa'', ''Europe'', ''Europe''], [''Africa'', ''Europe'', ''Europe''],
      [''Africa'', ''Europe'', ''Europe'']]
   \<and> \<not> distinct [''Africa'', ''Europe'', ''Europe'']"
  by (simp add: renderInput_matching_def rightOptions_def capitals_def
      less_eq_list_code less_list_code)

text \<open>
  Claim C8, amended. Every row of a matching question offers the same list of choices,
  whatever its left item and whatever is selected: the right items of all the pairs, one
  entry per pair (an item that several pairs share is repeated), in sorted order.
\<close>

theorem matching_choices:
  "map row_choices (renderInput_matching q sel)
     = replicate (length (renderInput_matching q sel)) (rightOptions q)
   \<and> sorted (rightOptions q)
   \<and> (matchingPairs q = Some ps \<longrightarrow>
        map row_left (renderInput_matching q sel) = map left ps
        \<and> mset (rightOptions q) = mset (map right ps)
        \<and> rightOptions q = sort (map right ps))"
  by (auto simp add: renderInput_matching_def rightOptions_def map_replicate_const comp_def
      split: option.splits)

theorem matching_choices_witness:
  "map row_left (renderInput_matching capitals []) = [''Paris'', ''Cairo'', ''Berlin'']
   \<and> mset (rightOptions capitals) = {#''Europe'', ''Africa'', ''Europe''#}"
  using matching_choices [of capitals "[]"
      "[\<lparr>left = ''Paris'', right = ''Europe''\<rparr>, \<lparr>left = ''Cairo'', right = ''Africa''\<rparr>,
        \<lparr>left = ''Berlin'', right = ''Europe''\<rparr>]"]
  by (simp add: capitals_def)

section \<open>The response of the generation service\<close>

text \<open>
  Claim C3, as the specification states it, asks for an error when the response holds zero
  questions. The guard \<^verbatim>\<open>!data.questions\<close> lets the empty array through, and the empty list
  is returned.
\<close>

theorem generateQuiz_empty_counterexample:
  "generateQuiz True (\<lambda>k. 0) 0 (Parsed (Some [])) = Inr []"
  by (simp add: generateQuiz_def)

text \<open>
  Claim C3, amended. A response without the top-level question array fails with an error
  and returns no list; a response whose array is empty returns the empty list; and a list
  is returned exactly when the credential is there and the parsed response has the array.
\<close>

theorem generateQuiz_malformed:
  "generateQuiz api_key rnd k (Parsed None)
     = Inl (if api_key then InvalidResponseStructure else ApiKeyMissing)
   \<and> generateQuiz True rnd k (Parsed (Some [])) = Inr []
   \<and> (\<exists>qs. generateQuiz api_key rnd k resp = Inr qs)
       = (api_key \<and> (\<exists>qs0. resp = Parsed (Some qs0)))"
  by (auto simp add: generateQuiz_def split: response.splits option.splits)

subsection \<open>shuffleArray permutes\<close>

declare shuffle_loop.simps [simp del]

lemma random_index_le:
  assumes "0 \<le> r" and "r < 1"
  shows "nat \<lfloor>r * (real i + 1)\<rfloor> \<le> i"
proof -
  have "r * (real i + 1) < real i + 1"
    using assms by (simp add: mult_less_cancel_right1)
  then have "r * (real i + 1) < of_int (int i + 1)"
    by simp
  then have "\<lfloor>r * (real i + 1)\<rfloor> < int i + 1"
    by (simp only: floor_less_iff)
  then show ?thesis by linarith
qed

lemma mset_swap_list:
  "i < length arr \<Longrightarrow> j < length arr \<Longrightarrow> mset (swap i j arr) = mset arr"
  unfolding swap_def by (simp add: mset_swap)

lemma length_swap [simp]: "length (swap i j arr) = length arr"
  by (simp add: swap_def)

lemma shuffle_loop_mset:
  "unit_source rnd \<Longrightarrow> i < length arr \<or> i = 0 \<Longrightarrow>
     mset (fst (shuffle_loop rnd k i arr)) = mset arr"
proof (induction rnd k i arr rule: shuffle_loop.induct)
  case (1 rnd k i newArr)
  show ?case
  proof (cases "i > 0")
    case False
    then show ?thesis by (subst shuffle_loop.simps) simp
  next
    case True
    define j where "j = nat \<lfloor>rnd k * (real i + 1)\<rfloor>"
    have i: "i < length newArr" using True "1.prems"(2) by simp
    have "j \<le> i"
      unfolding j_def using "1.prems"(1) by (intro random_index_le) (simp_all add: unit_source_def)
    then have j: "j < length newArr" using i by simp
    have "i - 1 < length (swap i j newArr) \<or> i - 1 = 0"
      using i unfolding length_swap by arith
    then have "mset (fst (shuffle_loop rnd (k + 1) (i - 1) (swap i j newArr))) = mset (swap i j newArr)"
      by (rule "1.IH" [OF True j_def "1.prems"(1)])
    then show ?thesis
      using True by (subst shuffle_loop.simps) (simp add: j_def [symmetric] mset_swap_list i j)
  qed
qed

lemma shuffleArray_mset:
  "unit_source rnd \<Longrightarrow> mset (fst (shuffleArray rnd k array)) = mset array"
proof -
  assume u: "unit_source rnd"
  have "length array - 1 < length array \<or> length array - 1 = 0"
    by arith
  then show ?thesis
    unfolding shuffleArray_def by (rule shuffle_loop_mset [OF u])
qed

lemma process_question_fields:
  "unit_source rnd \<Longrightarrow>
     qid (fst (process_question rnd k q)) = qid q
     \<and> qtype (fst (process_question rnd k q)) = qtype q
     \<and> qtext (fst (process_question rnd k q)) = qtext q
     \<and> correctAnswer (fst (process_question rnd k q)) = correctAnswer q
     \<and> matchingPairs (fst (process_question rnd k q)) = matchingPairs q
     \<and> sequencingItems (fst (process_question rnd k q)) = sequencingItems q
     \<and> map_option mset (options (fst (process_question rnd k q))) = map_option mset (options q)
     \<and> (qtype q \<noteq> MULTIPLE_CHOICE \<longrightarrow> fst (process_question rnd k q) = q)"
  using shuffleArray_mset [of rnd k]
  by (auto simp add: process_question_def case_prod_beta split: option.splits)

text \<open>
  Claim C7. With a random source that draws from the unit interval, the questions that
  \<^verbatim>\<open>generateQuiz\<close> returns correspond one to one, in order, to those of the response; each keeps
  its identity, type, text, correct answer, matching pairs and sequencing items; its option
  list, when it has one, is a permutation of the original (the same multiset); and a
  question that is not multiple-choice is returned as it came.
\<close>

theorem generateQuiz_permutes_options:
  assumes "unit_source rnd"
  shows "\<exists>qs'. generateQuiz True rnd k (Parsed (Some qs)) = Inr qs'
           \<and> list_all2 (\<lambda>q q'.
                 qid q' = qid q \<and> qtype q' = qtype q \<and> qtext q' = qtext q
                 \<and> correctAnswer q' = correctAnswer q
                 \<and> matchingPairs q' = matchingPairs q
                 \<and> sequencingItems q' = sequencingItems q
                 \<and> map_option mset (options q') = map_option mset (options q)
                 \<and> (qtype q \<noteq> MULTIPLE_CHOICE \<longrightarrow> q' = q)) qs qs'"
proof -
  let ?P = "\<lambda>q q'.
                 qid q' = qid q \<and> qtype q' = qtype q \<and> qtext q' = qtext q
                 \<and> correctAnswer q' = correctAnswer q
                 \<and> matchingPairs q' = matchingPairs q
                 \<and> sequencingItems q' = sequencingItems q
                 \<and> map_option mset (options q') = map_option mset (options q)
                 \<and> (qtype q \<noteq> MULTIPLE_CHOICE \<longrightarrow> q' = q)"
  have "list_all2 ?P qs (fst (process_questions rnd k qs))"
  proof (induction qs arbitrary: k)
    case Nil
    show ?case by simp
  next
    case (Cons q qs)
    have "?P q (fst (process_question rnd k q))"
      using process_question_fields [OF assms, of k q] by blast
    then show ?case
      using Cons [of "snd (process_question rnd k q)"]
      by (simp add: case_prod_beta Let_def)
  qed
  then show ?thesis by (simp add: generateQuiz_def)
qed

theorem generateQuiz_permutes_options_witness:
  "generateQuiz True (\<lambda>k. 1 / 3) 0 (Parsed (Some [capital_mc, water_tf]))
     = Inr [capital_mc\<lparr>options := Some [''Nice'', ''Paris'', ''Lille'', ''Lyon'']\<rparr>, water_tf]
   \<and> mset [''Nice'', ''Paris'', ''Lille'', ''Lyon''] = mset [''Paris'', ''Lyon'', ''Nice'', ''Lille'']"
proof -
  have u: "unit_source (\<lambda>k. 1 / 3)" by (simp add: unit_source_def)
  have e: "generateQuiz True (\<lambda>k. 1 / 3) 0 (Parsed (Some [capital_mc, water_tf]))
     = Inr [capital_mc\<lparr>options := Some [''Nice'', ''Paris'', ''Lille'', ''Lyon'']\<rparr>, water_tf]"
    by (simp add: generateQuiz_def process_question_def shuffleArray_def shuffle_loop.simps
        swap_def capital_mc_def water_tf_def)
  show ?thesis
    using generateQuiz_permutes_options [OF u, of 0 "[capital_mc, water_tf]"] e
    by (simp add: capital_mc_def list_all2_Cons1)
qed

section \<open>Aggregation of the grading response\<close>

lemma find_Some_set: "find P xs = Some x \<Longrightarrow> x \<in> set xs \<and> P x"
  by (induction xs) (auto split: if_splits)

lemma question_eta:
  "\<lparr>qid = qid x, qtype = qtype x, qtext = qtext x, options = options x,
    correctAnswer = correctAnswer x, matchingPairs = matchingPairs x,
    sequencingItems = sequencingItems x\<rparr> = (x :: Question)"
  by simp

lemma merge_grade_Inl:
  "merge_grade oq ua gq = Inl e \<longleftrightarrow> gq_id gq \<notin> qid ` set oq \<and> e = QuestionIdMismatch (gq_id gq)"
proof (cases "find (\<lambda>q. qid q = gq_id gq) oq")
  case None
  then have "gq_id gq \<notin> qid ` set oq" by (auto simp add: find_None_iff)
  then show ?thesis using None by (auto simp add: merge_grade_def)
next
  case (Some orig)
  then have "gq_id gq \<in> qid ` set oq" using find_Some_set [OF Some] by force
  then show ?thesis using Some by (simp add: merge_grade_def)
qed

lemma merge_grade_Inr:
  assumes "merge_grade oq ua gq = Inr g"
  shows "merged oq ua gq g"
proof (cases "find (\<lambda>q. qid q = gq_id gq) oq")
  case None
  then show ?thesis using assms by (simp add: merge_grade_def)
next
  case (Some orig)
  have i: "qid orig = gq_id gq"
    using find_Some_set [OF Some] by simp
  have t: "Question.truncate g = orig"
    using assms Some by (auto simp add: merge_grade_def Question.truncate_def question_eta)
  have "qid g = qid orig"
    using assms Some by (auto simp add: merge_grade_def)
  moreover have "userAnswer g = (case find (\<lambda>a. questionId a = gq_id gq) ua of None \<Rightarrow> [] | Some a \<Rightarrow> answer a)
     \<and> isCorrect g = gq_isCorrect gq \<and> score g = gq_score gq
     \<and> explanation g = gq_explanation gq \<and> aiCorrection g = gq_aiCorrection gq"
    using assms Some by (auto simp add: merge_grade_def)
  ultimately show ?thesis
    using i t Some by (simp add: merged_def)
qed

lemma merge_grades_Inr:
  "\<forall>gq\<in>set gqs. gq_id gq \<in> qid ` set oq \<Longrightarrow>
     \<exists>gs. merge_grades oq ua gqs = Inr gs
          \<and> list_all2 (\<lambda>gq g. merge_grade oq ua gq = Inr g) gqs gs"
proof (induction gqs)
  case Nil
  show ?case by simp
next
  case (Cons gq gqs)
  obtain g where g: "merge_grade oq ua gq = Inr g"
    using Cons.prems merge_grade_Inl [of oq ua gq] by (cases "merge_grade oq ua gq") auto
  obtain gs where "merge_grades oq ua gqs = Inr gs"
    and "list_all2 (\<lambda>gq g. merge_grade oq ua gq = Inr g) gqs gs"
    using Cons by auto
  then show ?case using g by simp
qed

lemma merge_grades_Inl:
  "\<exists>gq\<in>set gqs. gq_id gq \<notin> qid ` set oq \<Longrightarrow>
     \<exists>gq\<in>set gqs. gq_id gq \<notin> qid ` set oq
        \<and> merge_grades oq ua gqs = Inl (QuestionIdMismatch (gq_id gq))"
proof (induction gqs)
  case Nil
  then show ?case by simp
next
  case (Cons gq gqs)
  show ?case
  proof (cases "gq_id gq \<in> qid ` set oq")
    case False
    then have "merge_grade oq ua gq = Inl (QuestionIdMismatch (gq_id gq))"
      by (simp add: merge_grade_Inl)
    then show ?thesis using False by simp
  next
    case True
    then obtain g where g: "merge_grade oq ua gq = Inr g"
      using merge_grade_Inl [of oq ua gq] by (cases "merge_grade oq ua gq") auto
    from True Cons.prems have "\<exists>gq\<in>set gqs. gq_id gq \<notin> qid ` set oq" by auto
    then obtain b where "b \<in> set gqs" and "gq_id b \<notin> qid ` set oq"
      and "merge_grades oq ua gqs = Inl (QuestionIdMismatch (gq_id b))"
      using Cons.IH by blast
    then show ?thesis using g by auto
  qed
qed

lemma foldl_score:
  "foldl (\<lambda>acc curr. acc + score curr) a gs = a + sum_list (map score gs)"
  by (induction gs arbitrary: a) simp_all

text \<open>
  Claim C4. For a grading response with its array of records: when a record's identity is
  that of no original question, \<^verbatim>\<open>gradeQuiz\<close> fails with the identity-mismatch error of such a
  record and returns no result; when every record's identity is that of an original
  question, it returns a result whose graded questions are the merges of the records, in
  order, whose total is the sum of the records' scores and whose maximum is the number of
  original questions.
\<close>

theorem gradeQuiz_identity_mismatch:
  assumes "data_gradedQuestions data = Some gqs"
  shows "((\<exists>gq\<in>set gqs. gq_id gq \<notin> qid ` set oq) \<longrightarrow>
           (\<exists>gq\<in>set gqs. gq_id gq \<notin> qid ` set oq
              \<and> gradeQuiz True (Parsed data) oq ua = Inl (QuestionIdMismatch (gq_id gq))))
       \<and> ((\<forall>gq\<in>set gqs. gq_id gq \<in> qid ` set oq) \<longrightarrow>
           (\<exists>r. gradeQuiz True (Parsed data) oq ua = Inr r
              \<and> list_all2 (merged oq ua) gqs (gradedQuestions r)
              \<and> totalScore r = sum_list (map gq_score gqs)
              \<and> maxScore r = length oq))"
proof (intro conjI impI)
  assume "\<exists>gq\<in>set gqs. gq_id gq \<notin> qid ` set oq"
  from merge_grades_Inl [OF this, of ua]
  show "\<exists>gq\<in>set gqs. gq_id gq \<notin> qid ` set oq
              \<and> gradeQuiz True (Parsed data) oq ua = Inl (QuestionIdMismatch (gq_id gq))"
    using assms by (auto simp add: gradeQuiz_def aggregate_def)
next
  assume "\<forall>gq\<in>set gqs. gq_id gq \<in> qid ` set oq"
  from merge_grades_Inr [OF this, of ua]
  obtain gs where gs: "merge_grades oq ua gqs = Inr gs"
    and all: "list_all2 (\<lambda>gq g. merge_grade oq ua gq = Inr g) gqs gs" by blast
  have m: "list_all2 (merged oq ua) gqs gs"
    using all merge_grade_Inr [of oq ua]
    by (auto elim!: list_all2_mono)
  then have "map score gs = map gq_score gqs"
    by (induction gqs gs rule: list_all2_induct) (simp_all add: merged_def)
  then have "foldl (\<lambda>acc curr. acc + score curr) 0 gs = sum_list (map gq_score gqs)"
    by (simp add: foldl_score)
  then show "\<exists>r. gradeQuiz True (Parsed data) oq ua = Inr r
              \<and> list_all2 (merged oq ua) gqs (gradedQuestions r)
              \<and> totalScore r = sum_list (map gq_score gqs)
              \<and> maxScore r = length oq"
    using assms gs m by (simp add: gradeQuiz_def aggregate_def)
qed

theorem gradeQuiz_identity_mismatch_witness:
  "gradeQuiz True (Parsed \<lparr>data_gradedQuestions = Some [grade_of 1 1, grade_of 7 0],
                           data_overallFeedback = Some ''Good.''\<rparr>)
      [capital_mc, water_tf] two_answers = Inl (QuestionIdMismatch 7)
   \<and> (\<exists>r. gradeQuiz True (Parsed \<lparr>data_gradedQuestions = Some [grade_of 1 1, grade_of 2 (1 / 2)],
                                    data_overallFeedback = None\<rparr>)
             [capital_mc, water_tf] two_answers = Inr r
          \<and> map qid (gradedQuestions r) = [1, 2]
          \<and> totalScore r = 3 / 2 \<and> maxScore r = 2)"
proof -
  have ids: "qid ` set [capital_mc, water_tf] = {1, 2}"
    by (auto simp add: capital_mc_def water_tf_def)
  have a: "gradeQuiz True (Parsed \<lparr>data_gradedQuestions = Some [grade_of 1 1, grade_of 7 0],
                           data_overallFeedback = Some ''Good.''\<rparr>)
      [capital_mc, water_tf] two_answers = Inl (QuestionIdMismatch 7)"
    using gradeQuiz_identity_mismatch [of "\<lparr>data_gradedQuestions = Some [grade_of 1 1, grade_of 7 0],
                           data_overallFeedback = Some ''Good.''\<rparr>" "[grade_of 1 1, grade_of 7 0]"
        "[capital_mc, water_tf]" two_answers]
    unfolding ids by (simp add: grade_of_def)
  have b: "\<exists>r. gradeQuiz True (Parsed \<lparr>data_gradedQuestions = Some [grade_of 1 1, grade_of 2 (1 / 2)],
                                    data_overallFeedback = None\<rparr>)
             [capital_mc, water_tf] two_answers = Inr r
          \<and> map qid (gradedQuestions r) = [1, 2]
          \<and> totalScore r = 3 / 2 \<and> maxScore r = 2"
    using gradeQuiz_identity_mismatch [of "\<lparr>data_gradedQuestions = Some [grade_of 1 1, grade_of 2 (1 / 2)],
                                    data_overallFeedback = None\<rparr>" "[grade_of 1 1, grade_of 2 (1 / 2)]"
        "[capital_mc, water_tf]" two_answers]
    unfolding ids by (auto simp add: grade_of_def list_all2_Cons1 merged_def)
  show ?thesis using a b by blast
qed

section \<open>The tutor follow-up\<close>

text \<open>
  Claim C9, as the specification states it, has the follow-up operation return a fallback
  string to its caller when the remote call fails. \<^verbatim>\<open>explainQuestion\<close> has no handler: the
  failure of the remote call is its own result.
\<close>

theorem explainQuestion_counterexample:
  "explainQuestion True (\<lambda>prompt. Inl (RemoteError ''503 Service Unavailable''))
      ''What is 2 + 2?'' ''5'' ''4'' ''Why is my answer wrong?''
     = Inl (RemoteError ''503 Service Unavailable'')"
  by (simp add: explainQuestion_def)

text \<open>
  Claim C9, amended. No error leaves \<^verbatim>\<open>handleAskAI\<close>. When the query is not blank and the
  remote call fails, \<^verbatim>\<open>explainQuestion\<close> passes the failure to \<^verbatim>\<open>handleAskAI\<close>, its caller, which
  catches it, shows the fallback string as the chat response and ends the loading state.
\<close>

theorem handleAskAI_fallback:
  "(\<exists>s'. handleAskAI api_key generateContent s q = Inr s')
   \<and> (trim (chatInput s) \<noteq> [] \<and>
        generateContent (explain_prompt (qtext q) (userAnswer q) (aiCorrection q) (chatInput s)) = Inl e
      \<longrightarrow> explainQuestion api_key generateContent (qtext q) (userAnswer q) (aiCorrection q) (chatInput s)
            = Inl (if api_key then e else ApiKeyMissing)
          \<and> handleAskAI api_key generateContent s q
            = Inr (s\<lparr>isChatLoading := False,
                     chatResponse := Some ''Sorry, I couldn't connect to the AI tutor right now.''\<rparr>))"
  by (simp add: handleAskAI_def explainQuestion_def Let_def)

theorem handleAskAI_fallback_witness:
  "handleAskAI True (\<lambda>prompt. Inl (RemoteError ''503 Service Unavailable'')) asking graded_mc
     = Inr (asking\<lparr>isChatLoading := False,
                   chatResponse := Some ''Sorry, I couldn't connect to the AI tutor right now.''\<rparr>)"
  using handleAskAI_fallback [of True "\<lambda>prompt. Inl (RemoteError ''503 Service Unavailable'')"
      asking graded_mc "RemoteError ''503 Service Unavailable''"]
  by (simp add: asking_def trim_def js_whitespace_def)

section \<open>The encoding of a sequencing answer\<close>

declare split_from.simps [simp del]

lemma split_from_Nil: "split_from sep cur [] = [cur]"
  by (simp add: split_from.simps)

lemma split_from_match:
  "sep \<noteq> [] \<Longrightarrow> split_from sep cur (sep @ s) = cur # split_from sep [] s"
  by (cases sep) (simp_all add: split_from.simps)

lemma split_from_skip:
  "\<not> prefix sep (c # cs) \<Longrightarrow> split_from sep cur (c # cs) = split_from sep (cur @ [c]) cs"
  by (simp add: split_from.simps)

text \<open>Scanning over a stretch in which no occurrence of the separator starts.\<close>

lemma split_from_scan:
  "(\<And>t. t \<noteq> [] \<Longrightarrow> suffix t x \<Longrightarrow> \<not> prefix sep (t @ tail)) \<Longrightarrow>
     split_from sep cur (x @ tail) = split_from sep (cur @ x) tail"
proof (induction x arbitrary: cur)
  case Nil
  show ?case by simp
next
  case (Cons c x)
  have "\<not> prefix sep ((c # x) @ tail)"
    by (rule Cons.prems) simp_all
  then have "split_from sep cur ((c # x) @ tail) = split_from sep (cur @ [c]) (x @ tail)"
    by (simp add: split_from_skip)
  also have "\<dots> = split_from sep ((cur @ [c]) @ x) tail"
  proof (rule Cons.IH)
    fix t assume "t \<noteq> []" and "suffix t x"
    then show "\<not> prefix sep (t @ tail)"
      by (intro Cons.prems) (simp_all add: suffix_Cons)
  qed
  finally show ?case by simp
qed

lemma prefix_within:
  assumes "prefix sep (t @ sep @ rest)" and "t \<noteq> []"
  shows "prefix sep (butlast (t @ sep))"
proof -
  have "sep = take (length sep) (t @ sep @ rest)"
    using assms(1) by (metis append_eq_conv_conj prefix_def)
  also have "\<dots> = take (length sep) (take (length t + length sep - 1) (t @ sep @ rest))"
    using assms(2) by (cases t) (simp_all add: min_def)
  also have "take (length t + length sep - 1) (t @ sep @ rest) = butlast (t @ sep)"
    by (simp add: butlast_conv_take)
  finally show ?thesis
    by (metis take_is_prefix)
qed


lemma clean_scan:
  assumes "\<not> sublist sep (butlast (x @ sep))" and "t \<noteq> []" and "suffix t x"
  shows "\<not> prefix sep (t @ sep @ rest)"
proof
  assume "prefix sep (t @ sep @ rest)"
  then have p: "prefix sep (butlast (t @ sep))"
    using assms(2) by (rule prefix_within)
  obtain u where "x = u @ t" using assms(3) by (auto simp add: suffix_def)
  then have "butlast (x @ sep) = u @ butlast (t @ sep)"
    using assms(2) by (simp add: butlast_append)
  then have "sublist sep (butlast (x @ sep))"
    using p by (metis prefix_imp_sublist sublist_append)
  then show False using assms(1) by simp
qed

lemma split_join_clean:
  "sep \<noteq> [] \<Longrightarrow> clean_pieces sep items \<Longrightarrow> split_from sep [] (join sep items) = items"
proof (induction sep items rule: clean_pieces.induct)
  case (1 sep)
  then show ?case by simp
next
  case (2 sep p)
  have "split_from sep [] (p @ []) = split_from sep ([] @ p) []"
  proof (rule split_from_scan)
    fix t assume "t \<noteq> []" and "suffix t p"
    then show "\<not> prefix sep (t @ [])"
      using 2 by (auto simp add: sublist_altdef')
  qed
  then show ?case by (simp add: split_from_Nil)
next
  case (3 sep p q qs)
  have "split_from sep [] (p @ sep @ join sep (q # qs)) = split_from sep ([] @ p) (sep @ join sep (q # qs))"
  proof (rule split_from_scan)
    fix t assume "t \<noteq> []" and "suffix t p"
    then show "\<not> prefix sep (t @ sep @ join sep (q # qs))"
      using 3 by (intro clean_scan [of sep p]) simp_all
  qed
  then show ?case using 3 by (simp add: split_from_match)
qed

lemma split_from_clean:
  "sep \<noteq> [] \<Longrightarrow> (\<And>t. t \<noteq> [] \<Longrightarrow> suffix t cur \<Longrightarrow> \<not> prefix sep (t @ s)) \<Longrightarrow>
     clean_pieces sep (split_from sep cur s)"
proof (induction sep cur s rule: split_from.induct)
  case (1 sep cur)
  have "\<not> sublist sep cur"
  proof
    assume "sublist sep cur"
    then obtain t where t: "suffix t cur" "prefix sep t"
      by (auto simp add: sublist_altdef')
    then have "t \<noteq> []" using "1.prems"(1) by auto
    then show False using "1.prems"(2) [of t] t by simp
  qed
  then show ?case by (simp add: split_from_Nil)
next
  case (2 sep cur c cs)
  show ?case
  proof (cases "prefix sep (c # cs)")
    case True
    then obtain rest where rest: "c # cs = sep @ rest"
      by (auto simp add: prefix_def)
    have r: "clean_pieces sep (split_from sep [] rest)"
      using "2.IH"(1) "2.prems"(1) True rest by simp
    then obtain q qs where q: "split_from sep [] rest = q # qs"
      by (cases "split_from sep [] rest") simp_all
    have "\<not> sublist sep (butlast (cur @ sep))"
    proof
      assume "sublist sep (butlast (cur @ sep))"
      then obtain t' where t': "suffix t' (cur @ butlast sep)" "prefix sep t'"
        using "2.prems"(1) by (auto simp add: sublist_altdef' butlast_append)
      have "length sep \<le> length t'" using t'(2) by (rule prefix_length_le)
      have lp: "0 < length sep" using "2.prems"(1) by simp
      have "\<not> suffix t' (butlast sep)"
      proof
        assume "suffix t' (butlast sep)"
        then have "length t' \<le> length (butlast sep)" by (rule suffix_length_le)
        then have "length t' \<le> length sep - 1" by simp
        with \<open>length sep \<le> length t'\<close> lp show False by arith
      qed
      then obtain t where t: "suffix t cur" "t' = t @ butlast sep"
        using t'(1) by (auto simp add: suffix_append)
      have "t \<noteq> []"
      proof
        assume "t = []"
        then have "length t' = length sep - 1" using t(2) by simp
        with \<open>length sep \<le> length t'\<close> lp show False by arith
      qed
      have "prefix sep (t @ sep @ rest)"
        using t'(2) t(2) by (metis append.assoc append_butlast_last_id "2.prems"(1) prefix_prefix)
      then show False
        using "2.prems"(2) [OF \<open>t \<noteq> []\<close> t(1)] rest by simp
    qed
    then show ?thesis
      using "2.prems"(1) r q rest by (simp add: split_from_match)
  next
    case False
    have "clean_pieces sep (split_from sep (cur @ [c]) cs)"
    proof (rule "2.IH"(2))
      show "\<not> (sep \<noteq> [] \<and> prefix sep (c # cs))" using False by simp
      show "sep \<noteq> []" by fact
      fix t assume "t \<noteq> []" and s: "suffix t (cur @ [c])"
      then obtain t0 where t0: "t = t0 @ [c]" "suffix t0 cur"
        by (cases t rule: rev_cases) (auto simp add: suffix_def)
      show "\<not> prefix sep (t @ cs)"
      proof (cases "t0 = []")
        case True
        then show ?thesis using False t0 by simp
      next
        case False
        then show ?thesis using "2.prems"(2) [OF False t0(2)] t0(1) by simp
      qed
    qed
    then show ?thesis using False by (simp add: split_from_skip)
  qed
qed

lemma split_join_iff:
  "sep \<noteq> [] \<Longrightarrow> (split sep (join sep items) = items) = clean_pieces sep items"
proof
  assume "sep \<noteq> []" and "split sep (join sep items) = items"
  then show "clean_pieces sep items"
    using split_from_clean [of sep "[]" "join sep items"] by (simp add: split_def)
next
  assume "sep \<noteq> []" and "clean_pieces sep items"
  then show "split sep (join sep items) = items"
    by (simp add: split_def split_join_clean)
qed


lemma sublist_bars:
  "sublist '' || '' (butlast (p @ '' || '')) \<longleftrightarrow> sublist '' || '' p \<or> suffix '' ||'' p"
proof -
  have b: "butlast (p @ '' || '') = p @ '' ||''" by (simp add: butlast_append)
  have "(\<exists>xs1 xs2. '' || '' = xs1 @ xs2 \<and> suffix xs1 p \<and> prefix xs2 '' ||'')
          \<longleftrightarrow> suffix '' || '' p \<or> suffix '' ||'' p" (is "?l \<longleftrightarrow> ?r")
  proof
    assume ?l
    then show ?r
      by (auto simp add: append_eq_Cons_conv Cons_eq_append_conv prefix_Cons)
  next
    assume ?r
    then show ?l
    proof
      assume "suffix '' || '' p"
      then have "'' || '' = '' || '' @ [] \<and> suffix '' || '' p \<and> prefix [] '' ||''" by simp
      then show ?l by blast
    next
      assume "suffix '' ||'' p"
      then have "'' || '' = '' ||'' @ '' '' \<and> suffix '' ||'' p \<and> prefix '' '' '' ||''" by simp
      then show ?l by blast
    qed
  qed
  moreover have "suffix '' || '' p \<Longrightarrow> sublist '' || '' p"
    by (rule suffix_imp_sublist)
  moreover have "\<not> sublist '' || '' '' ||''"
    by (simp add: sublist_code)
  ultimately show ?thesis
    unfolding b sublist_append by blast
qed

lemma clean_pieces_bars:
  "clean_pieces '' || '' items \<longleftrightarrow>
     items \<noteq> [] \<and> (\<forall>x\<in>set items. \<not> sublist '' || '' x)
     \<and> (\<forall>x\<in>set (butlast items). \<not> suffix '' ||'' x)"
  by (induction "'' || ''" items rule: clean_pieces.induct) (auto simp add: sublist_bars)

text \<open>
  Claim C6, as the specification states it, has the split of the encoding recover every
  working list whose items do not contain the separator. An item that ends with a space and
  two bars completes a separator one code unit early, and the empty list encodes to the
  empty string, which splits into one empty item.
\<close>

theorem sequencing_encoding_counterexample:
  "\<not> sublist '' || '' ''a ||'' \<and> \<not> sublist '' || '' ''b''
   \<and> split '' || '' (encode_sequence [''a ||'', ''b'']) = [''a'', ''|| b'']
   \<and> split '' || '' (encode_sequence []) = ['''']"
  by (simp add: sublist_code encode_sequence_def split_def split_from.simps)

text \<open>
  Claim C6, amended. The encoding joins the items in their current order with the separator
  (the list b, a, c encodes to \<^verbatim>\<open>b || a || c\<close>), and splitting the encoded string on the
  separator recovers exactly the original list if and only if the list is not empty, no item
  contains the separator, and no item but the last ends with a space and two bars.
\<close>

theorem sequencing_encoding:
  "encode_sequence [''b'', ''a'', ''c''] = ''b || a || c''
   \<and> (split '' || '' (encode_sequence items) = items)
       = (items \<noteq> [] \<and> (\<forall>x\<in>set items. \<not> sublist '' || '' x)
          \<and> (\<forall>x\<in>set (butlast items). \<not> suffix '' ||'' x))"
  using split_join_iff [of "'' || ''" items]
  by (simp add: encode_sequence_def clean_pieces_bars)

theorem sequencing_encoding_witness:
  "split '' || '' (encode_sequence [''b'', ''a'', ''c'']) = [''b'', ''a'', ''c'']"
proof -
  have "[''b'', ''a'', ''c''] \<noteq> [] \<and> (\<forall>x\<in>set [''b'', ''a'', ''c'']. \<not> sublist '' || '' x)
          \<and> (\<forall>x\<in>set (butlast [''b'', ''a'', ''c'']). \<not> suffix '' ||'' x)"
    by (simp add: sublist_code suffix_def Cons_eq_append_conv)
  then show ?thesis
    using sequencing_encoding [of "[''b'', ''a'', ''c'']"] by blast
qed

section \<open>The quiz session\<close>

subsection \<open>Objects\<close>








subsection \<open>getFormattedAnswers\<close>







subsection \<open>The working list\<close>





subsection \<open>Invariant\<close>














subsection \<open>Visited questions\<close>

















subsection \<open>Ticks\<close>


lemma getFormattedAnswers_timer [simp]:
  "getFormattedAnswers ps q (st\<lparr>timeLeft := t\<rparr>) = getFormattedAnswers ps q st"
  "getFormattedAnswers ps q (st\<lparr>interval := b\<rparr>) = getFormattedAnswers ps q st"
  "getFormattedAnswers ps q (st\<lparr>submitted := s\<rparr>) = getFormattedAnswers ps q st"
  by (simp_all add: getFormattedAnswers_def)



















lemma encode_matches_empty [simp]: "encode_matches [] = []"
  by (simp add: encode_matches_def object_entries_def)



end
